theory Spec2Isabelle
  imports Main
begin

section \<open>Python values shared by the agents\<close>

text \<open>
  Every agent wraps its work in \<^verbatim>\<open>try: ... except Exception as e\<close>. An exception is a
  value of type \<open>error\<close>; \<open>str_of_error\<close> is Python's \<^verbatim>\<open>str(e)\<close>.
\<close>

datatype error =
    APIError string
  | HttpError string
  | TypeError string
  | ValueError string
  | KeyError string
  | AttributeError string
  | IndexError string
  | JSONDecodeError string

fun str_of_error :: "error \<Rightarrow> string" where
  "str_of_error (APIError m) = m"
| "str_of_error (HttpError m) = m"
| "str_of_error (TypeError m) = m"
| "str_of_error (ValueError m) = m"
| "str_of_error (KeyError m) = m"
| "str_of_error (AttributeError m) = m"
| "str_of_error (IndexError m) = m"
| "str_of_error (JSONDecodeError m) = m"

text \<open>
  The completion endpoint is an external collaborator: prompt in, text out. The outcome of
  \<^verbatim>\<open>client.chat.completions.create(...)\<close> followed by
  \<^verbatim>\<open>response.choices[0].message.content\<close> is either an exception (\<open>Inl\<close>) or the
  content, which the client library types as an optional string.
\<close>

type_synonym completion = "error + string option"

subsection \<open>\<^verbatim>\<open>str.strip\<close>, \<^verbatim>\<open>str.lower\<close>, \<^verbatim>\<open>str.startswith\<close>, \<^verbatim>\<open>str(int)\<close>\<close>

text \<open>
  Characters are the code points below 256. \<open>isspace\<close> lists the code points in that
  range for which Python's \<^verbatim>\<open>str.isspace\<close> holds.
\<close>

definition isspace :: "char \<Rightarrow> bool" where
  "isspace c \<longleftrightarrow> (of_char c :: nat) \<in> {9, 10, 11, 12, 13, 28, 29, 30, 31, 32, 133, 160}"

definition strip :: "string \<Rightarrow> string" where
  "strip s = rev (dropWhile isspace (rev (dropWhile isspace s)))"

definition lower_char :: "char \<Rightarrow> char" where
  "lower_char c =
     (let n = (of_char c :: nat) in
      if (65 \<le> n \<and> n \<le> 90) \<or> (192 \<le> n \<and> n \<le> 222 \<and> n \<noteq> 215)
      then char_of (n + 32) else c)"

definition lower :: "string \<Rightarrow> string" where
  "lower s = map lower_char s"

definition startswith :: "string \<Rightarrow> string \<Rightarrow> bool" where
  "startswith s p \<longleftrightarrow> take (length p) s = p"

definition digit_char :: "nat \<Rightarrow> char" where
  "digit_char d = char_of (48 + d)"

fun str_of_nat :: "nat \<Rightarrow> string" where
  "str_of_nat n = (if n < 10 then [digit_char n] else str_of_nat (n div 10) @ [digit_char (n mod 10)])"

declare str_of_nat.simps [simp del]

definition none_strip_error :: error where
  "none_strip_error = AttributeError ''NoneType object has no attribute strip''"

text \<open>\<^verbatim>\<open>content.strip()\<close> on the optional content: \<^verbatim>\<open>None.strip()\<close> raises.\<close>

definition content_strip :: "string option \<Rightarrow> error + string" where
  "content_strip c = (case c of None \<Rightarrow> Inl none_strip_error | Some s \<Rightarrow> Inr (strip s))"

section \<open>Intent classifier (\<^verbatim>\<open>agents/intent_agent.py\<close>)\<close>

definition valid_intents :: "string list" where
  "valid_intents = [''query'', ''create'', ''modify'', ''cancel'', ''quit'']"

text \<open>
  \<^verbatim>\<open>IntentAgent.identify_intent\<close>. The argument is the outcome of the completion call made
  for the prompt built from the user's query.
\<close>

definition identify_intent :: "completion \<Rightarrow> string \<Rightarrow> string" where
  "identify_intent response user_query =
     (case response of
        Inl e \<Rightarrow> ''query''
      | Inr content \<Rightarrow>
          (case content_strip content of
             Inl e \<Rightarrow> ''query''
           | Inr stripped \<Rightarrow>
               (let intent = lower stripped in
                if intent \<notin> set valid_intents then ''query'' else intent)))"

subsection \<open>\<^verbatim>\<open>str.split\<close> on the Markdown fence\<close>

text \<open>
  \<^verbatim>\<open>s.split(sep)\<close> for a non-empty separator, scanning left to right; \<open>acc\<close> holds the
  current piece reversed. When the separator matches at \<open>c # cs\<close> the scan resumes after
  it, that is at \<open>drop (length sep - 1) cs\<close>.
\<close>

fun py_split :: "string \<Rightarrow> string \<Rightarrow> string \<Rightarrow> string list" where
  "py_split sep acc [] = [rev acc]"
| "py_split sep acc (c # cs) =
     (if sep \<noteq> [] \<and> take (length sep) (c # cs) = sep
      then rev acc # py_split sep [] (drop (length sep - 1) cs)
      else py_split sep (c # acc) cs)"

definition fence :: string where
  "fence = [CHR 0x60, CHR 0x60, CHR 0x60]"

definition split_fence :: "string \<Rightarrow> string list" where
  "split_fence s = py_split fence [] s"

section \<open>Datetimes and time zones (\<^verbatim>\<open>datetime\<close>, \<^verbatim>\<open>pytz\<close>)\<close>

text \<open>
  A \<^verbatim>\<open>datetime\<close> is a wall-clock reading, counted in seconds from 1970-01-01 00:00:00 on
  that wall clock, with or without a \<^verbatim>\<open>tzinfo\<close>. \<open>Naive w\<close> has none; \<open>Aware w off\<close>
  carries a zone whose UTC offset at that reading is \<open>off\<close> seconds, so it denotes the
  UTC instant \<open>w - off\<close>.
\<close>

datatype datetime = Naive int | Aware int int

fun wall :: "datetime \<Rightarrow> int" where
  "wall (Naive w) = w"
| "wall (Aware w off) = w"

text \<open>
  Comparison and subtraction of two datetimes: by wall clock when both are naive, by
  instant when both are aware, \<^verbatim>\<open>TypeError\<close> when they are mixed.
\<close>

definition naive_aware_error :: error where
  "naive_aware_error = TypeError ''can't use offset-naive and offset-aware datetimes together''"


fun dt_sub :: "datetime \<Rightarrow> datetime \<Rightarrow> error + int" where
  "dt_sub (Naive a) (Naive b) = Inr (a - b)"
| "dt_sub (Aware a oa) (Aware b ob) = Inr ((a - oa) - (b - ob))"
| "dt_sub _ _ = Inl naive_aware_error"

text \<open>\<^verbatim>\<open>dt + timedelta\<close> moves the wall clock and keeps the \<^verbatim>\<open>tzinfo\<close>.\<close>

fun dt_add :: "datetime \<Rightarrow> int \<Rightarrow> datetime" where
  "dt_add (Naive w) d = Naive (w + d)"
| "dt_add (Aware w off) d = Aware (w + d) off"

text \<open>
  A \<^verbatim>\<open>pytz\<close> zone is external data: \<open>utcoffset_at\<close> gives the offset in force at a UTC
  instant (what \<^verbatim>\<open>astimezone\<close> uses), \<open>localize_offset\<close> the offset \<^verbatim>\<open>localize\<close> picks
  for a naive wall-clock reading.
\<close>

record timezone =
  utcoffset_at :: "int \<Rightarrow> int"
  localize_offset :: "int \<Rightarrow> int"

definition fixed_offset :: "int \<Rightarrow> timezone" where
  "fixed_offset off = \<lparr>utcoffset_at = (\<lambda>_. off), localize_offset = (\<lambda>_. off)\<rparr>"

definition pytz_UTC :: timezone where
  "pytz_UTC = fixed_offset 0"

text \<open>
  \<^verbatim>\<open>dt.astimezone(tz)\<close> for an aware \<open>dt\<close> with wall clock \<open>w\<close> and offset \<open>off\<close>.
  The source calls it on aware datetimes only: on \<^verbatim>\<open>tz.localize(dt)\<close>, which gives a naive
  \<open>dt\<close> with wall clock \<open>w\<close> the offset \<open>localize_offset tz w\<close>, or behind a test of
  \<^verbatim>\<open>dt.tzinfo\<close>.
\<close>

definition astimezone :: "timezone \<Rightarrow> int \<Rightarrow> int \<Rightarrow> datetime" where
  "astimezone tz w off = (let i = w - off in Aware (i + utcoffset_at tz i) (utcoffset_at tz i))"

subsection \<open>Calendar dates, \<^verbatim>\<open>strftime\<close>, \<^verbatim>\<open>strptime\<close> and \<^verbatim>\<open>fromisoformat\<close>\<close>

text \<open>
  The proleptic Gregorian calendar of \<^verbatim>\<open>datetime\<close>: the number of days from 1970-01-01
  to a date, and back.
\<close>

definition days_from_civil :: "int \<Rightarrow> int \<Rightarrow> int \<Rightarrow> int" where
  "days_from_civil y m d =
     (let y' = (if m \<le> 2 then y - 1 else y);
          era = y' div 400;
          yoe = y' - era * 400;
          doy = (153 * (if m > 2 then m - 3 else m + 9) + 2) div 5 + d - 1;
          doe = yoe * 365 + yoe div 4 - yoe div 100 + doy
      in era * 146097 + doe - 719468)"

definition civil_from_days :: "int \<Rightarrow> int \<times> int \<times> int" where
  "civil_from_days z0 =
     (let z = z0 + 719468;
          era = z div 146097;
          doe = z - era * 146097;
          yoe = (doe - doe div 1460 + doe div 36524 - doe div 146096) div 365;
          doy = doe - (365 * yoe + yoe div 4 - yoe div 100);
          mp = (5 * doy + 2) div 153;
          d = doy - (153 * mp + 2) div 5 + 1;
          m = (if mp < 10 then mp + 3 else mp - 9);
          y = yoe + era * 400 + (if m \<le> 2 then 1 else 0)
      in (y, m, d))"

definition is_leap :: "int \<Rightarrow> bool" where
  "is_leap y \<longleftrightarrow> (y mod 4 = 0 \<and> y mod 100 \<noteq> 0) \<or> y mod 400 = 0"

definition days_in_month :: "int \<Rightarrow> int \<Rightarrow> int" where
  "days_in_month y m =
     (if m = 2 then (if is_leap y then 29 else 28)
      else if m \<in> {4, 6, 9, 11} then 30 else 31)"

definition valid_civil :: "int \<Rightarrow> int \<Rightarrow> int \<Rightarrow> int \<Rightarrow> int \<Rightarrow> int \<Rightarrow> bool" where
  "valid_civil y m d hh mm ss \<longleftrightarrow>
     1 \<le> y \<and> 1 \<le> m \<and> m \<le> 12 \<and> 1 \<le> d \<and> d \<le> days_in_month y m
     \<and> hh < 24 \<and> mm < 60 \<and> ss < 60"

definition wall_of_civil :: "int \<Rightarrow> int \<Rightarrow> int \<Rightarrow> int \<Rightarrow> int \<Rightarrow> int \<Rightarrow> int" where
  "wall_of_civil y m d hh mm ss = days_from_civil y m d * 86400 + hh * 3600 + mm * 60 + ss"

definition is_digit :: "char \<Rightarrow> bool" where
  "is_digit c \<longleftrightarrow> 48 \<le> (of_char c :: nat) \<and> (of_char c :: nat) \<le> 57"

definition int_of_digits :: "string \<Rightarrow> int" where
  "int_of_digits s = foldl (\<lambda>a c. 10 * a + (int (of_char c) - 48)) 0 s"

text \<open>
  \<open>shape p s\<close>: the text \<open>s\<close> has the fixed-width shape \<open>p\<close>, where \<open>d\<close> in the
  shape stands for one decimal digit and every other character for itself.
\<close>

fun shape :: "string \<Rightarrow> string \<Rightarrow> bool" where
  "shape [] [] = True"
| "shape (p # ps) (c # cs) = ((if p = CHR ''d'' then is_digit c else c = p) \<and> shape ps cs)"
| "shape _ _ = False"

definition field :: "nat \<Rightarrow> nat \<Rightarrow> string \<Rightarrow> int" where
  "field i n s = int_of_digits (take n (drop i s))"

definition bad_format :: error where
  "bad_format = ValueError ''time data does not match format''"

text \<open>
  \<^verbatim>\<open>datetime.strptime(s, '%Y-%m-%d %H:%M:%S')\<close> on the zero-padded text that
  \<^verbatim>\<open>strftime\<close> writes with the same format; the result is naive. (The library also takes
  fields without the padding; no accepted text holds a letter.)
\<close>

definition strptime_sqlite :: "string \<Rightarrow> error + datetime" where
  "strptime_sqlite s =
     (if shape ''dddd-dd-dd dd:dd:dd'' s
         \<and> valid_civil (field 0 4 s) (field 5 2 s) (field 8 2 s) (field 11 2 s) (field 14 2 s) (field 17 2 s)
      then Inr (Naive (wall_of_civil (field 0 4 s) (field 5 2 s) (field 8 2 s)
                                     (field 11 2 s) (field 14 2 s) (field 17 2 s)))
      else Inl bad_format)"

text \<open>
  \<^verbatim>\<open>datetime.fromisoformat(s)\<close> on the three layouts the provider and the cache hold:
  a date \<^verbatim>\<open>YYYY-MM-DD\<close> (midnight, naive), a date and time with any one separator
  character (naive), and the same followed by \<^verbatim>\<open>+HH:MM\<close> or \<^verbatim>\<open>-HH:MM\<close> (aware).
  Times are counted in whole seconds; a text with a fraction of a second, or of any other
  layout, is rejected here.
\<close>

definition fromisoformat :: "string \<Rightarrow> error + datetime" where
  "fromisoformat s =
     (if shape ''dddd-dd-dd'' s then
        (if valid_civil (field 0 4 s) (field 5 2 s) (field 8 2 s) 0 0 0
         then Inr (Naive (wall_of_civil (field 0 4 s) (field 5 2 s) (field 8 2 s) 0 0 0))
         else Inl bad_format)
      else if shape ''dddd-dd-dd'' (take 10 s) \<and> shape ''dd:dd:dd'' (take 8 (drop 11 s))
              \<and> 19 \<le> length s
              \<and> valid_civil (field 0 4 s) (field 5 2 s) (field 8 2 s)
                             (field 11 2 s) (field 14 2 s) (field 17 2 s) then
        (let w = wall_of_civil (field 0 4 s) (field 5 2 s) (field 8 2 s)
                               (field 11 2 s) (field 14 2 s) (field 17 2 s)
         in if length s = 19 then Inr (Naive w)
            else if shape ''+dd:dd'' (drop 19 s) \<and> field 20 2 s < 24 \<and> field 23 2 s < 60
              then Inr (Aware w (field 20 2 s * 3600 + field 23 2 s * 60))
            else if shape ''-dd:dd'' (drop 19 s) \<and> field 20 2 s < 24 \<and> field 23 2 s < 60
              then Inr (Aware w (- (field 20 2 s * 3600 + field 23 2 s * 60)))
            else Inl bad_format)
      else Inl bad_format)"

text \<open>\<^verbatim>\<open>dt.replace(tzinfo=timezone.utc)\<close> keeps the wall clock.\<close>

definition replace_tzinfo_utc :: "datetime \<Rightarrow> datetime" where
  "replace_tzinfo_utc dt = Aware (wall dt) 0"

text \<open>\<^verbatim>\<open>s.replace('Z', '+00:00')\<close>.\<close>

definition replace_Z :: "string \<Rightarrow> string" where
  "replace_Z s = concat (map (\<lambda>c. if c = CHR ''Z'' then ''+00:00'' else [c]) s)"

definition pad2 :: "int \<Rightarrow> string" where
  "pad2 n = [digit_char (nat n div 10 mod 10), digit_char (nat n mod 10)]"

definition pad4 :: "int \<Rightarrow> string" where
  "pad4 n = pad2 (n div 100) @ pad2 (n mod 100)"

text \<open>
  \<^verbatim>\<open>dt.strftime('%Y-%m-%d' + sep + '%H:%M:%S' + suffix)\<close>: the fields of the wall clock,
  whatever the \<^verbatim>\<open>tzinfo\<close>.
\<close>

definition strftime :: "string \<Rightarrow> string \<Rightarrow> datetime \<Rightarrow> string" where
  "strftime sep suffix dt =
     (let w = wall dt; sod = w mod 86400 in
      case civil_from_days (w div 86400) of
        (y, m, d) \<Rightarrow>
          pad4 y @ ''-'' @ pad2 m @ ''-'' @ pad2 d @ sep
          @ pad2 (sod div 3600) @ '':'' @ pad2 (sod mod 3600 div 60) @ '':'' @ pad2 (sod mod 60)
          @ suffix)"

definition strftime_sqlite :: "datetime \<Rightarrow> string" where
  "strftime_sqlite dt = strftime '' '' [] dt"

definition strftime_rfc3339 :: "datetime \<Rightarrow> string" where
  "strftime_rfc3339 dt = strftime ''T'' ''Z'' dt"

subsection \<open>\<^verbatim>\<open>TimezoneManager\<close> (\<^verbatim>\<open>timezone_manager.py\<close>)\<close>

record timezone_manager =
  user_timezone :: timezone

text \<open>
  \<^verbatim>\<open>convert_to_user_tz\<close> localizes a naive datetime in UTC and \<^verbatim>\<open>convert_to_utc\<close>
  localizes it in the user's zone, before the move to the target zone.
\<close>

definition convert_to_user_tz :: "timezone_manager \<Rightarrow> datetime \<Rightarrow> datetime" where
  "convert_to_user_tz tm dt =
     (case dt of
        Naive w \<Rightarrow> astimezone (user_timezone tm) w (localize_offset pytz_UTC w)
      | Aware w off \<Rightarrow> astimezone (user_timezone tm) w off)"

definition convert_to_utc :: "timezone_manager \<Rightarrow> datetime \<Rightarrow> datetime" where
  "convert_to_utc tm dt =
     (case dt of
        Naive w \<Rightarrow> astimezone pytz_UTC w (localize_offset (user_timezone tm) w)
      | Aware w off \<Rightarrow> astimezone pytz_UTC w off)"

section \<open>JSON texts (\<^verbatim>\<open>json.loads\<close>, \<^verbatim>\<open>json.dumps\<close>)\<close>

text \<open>
  A parsed JSON document. A number keeps its literal; an object keeps its members in the
  order of the text (a Python dict looks a key up by its last occurrence).
\<close>

datatype json =
    JNull
  | JBool bool
  | JNum string
  | JStr string
  | JArr "json list"
  | JObj "(string \<times> json) list"

definition json_ws :: "char \<Rightarrow> bool" where
  "json_ws c \<longleftrightarrow> (of_char c :: nat) \<in> {9, 10, 13, 32}"

definition skip_ws :: "string \<Rightarrow> string" where
  "skip_ws s = dropWhile json_ws s"

text \<open>
  The characters of a string literal after its opening quote, up to the closing quote;
  the two-character escapes are decoded, \<^verbatim>\<open>\u\<close> escapes and raw control characters are
  rejected.
\<close>

fun parse_chars :: "string \<Rightarrow> string \<Rightarrow> (string \<times> string) option" where
  "parse_chars acc [] = None"
| "parse_chars acc [c] = (if c = CHR 0x22 then Some (rev acc, []) else None)"
| "parse_chars acc (c # d # cs) =
     (if c = CHR 0x22 then Some (rev acc, d # cs)
      else if c = CHR 0x5C then
        (if d = CHR 0x22 \<or> d = CHR 0x5C \<or> d = CHR ''/'' then parse_chars (d # acc) cs
         else if d = CHR ''n'' then parse_chars (CHR 0x0A # acc) cs
         else if d = CHR ''t'' then parse_chars (CHR 0x09 # acc) cs
         else if d = CHR ''r'' then parse_chars (CHR 0x0D # acc) cs
         else if d = CHR ''b'' then parse_chars (CHR 0x08 # acc) cs
         else if d = CHR ''f'' then parse_chars (CHR 0x0C # acc) cs
         else None)
      else if (of_char c :: nat) < 32 then None
      else parse_chars (c # acc) (d # cs))"

text \<open>
  An integer literal: an optional minus sign and at least one digit; after a leading
  zero the literal ends.
\<close>

definition parse_int_literal :: "string \<Rightarrow> (string \<times> string) option" where
  "parse_int_literal s =
     (let sign = (if take 1 s = ''-'' then ''-'' else []);
          body = drop (length sign) s;
          ds = (if take 1 body = ''0'' then ''0'' else takeWhile is_digit body)
      in if ds = [] then None else Some (sign @ ds, drop (length ds) body))"

text \<open>
  Recursive descent over the text; \<open>fuel\<close> bounds the number of nested calls.
  \<open>parse_elems\<close> reads the elements of an array after \<^verbatim>\<open>[\<close> or a comma,
  \<open>parse_members\<close> the members of an object after \<^verbatim>\<open>{\<close> or a comma.
\<close>

fun parse_value :: "nat \<Rightarrow> string \<Rightarrow> (json \<times> string) option"
  and parse_elems :: "nat \<Rightarrow> string \<Rightarrow> (json list \<times> string) option"
  and parse_members :: "nat \<Rightarrow> string \<Rightarrow> ((string \<times> json) list \<times> string) option" where
  "parse_value 0 s = None"
| "parse_value (Suc n) s =
     (let t = skip_ws s in
      if take 4 t = ''null'' then Some (JNull, drop 4 t)
      else if take 4 t = ''true'' then Some (JBool True, drop 4 t)
      else if take 5 t = ''false'' then Some (JBool False, drop 5 t)
      else if take 1 t = [CHR 0x22] then
        (case parse_chars [] (drop 1 t) of
           None \<Rightarrow> None
         | Some (str, rest) \<Rightarrow> Some (JStr str, rest))
      else if take 1 t = ''['' then
        (if take 1 (skip_ws (drop 1 t)) = '']'' then Some (JArr [], drop 1 (skip_ws (drop 1 t)))
         else (case parse_elems n (drop 1 t) of
                 None \<Rightarrow> None
               | Some (xs, rest) \<Rightarrow> Some (JArr xs, rest)))
      else if take 1 t = ''{'' then
        (if take 1 (skip_ws (drop 1 t)) = ''}'' then Some (JObj [], drop 1 (skip_ws (drop 1 t)))
         else (case parse_members n (drop 1 t) of
                 None \<Rightarrow> None
               | Some (ms, rest) \<Rightarrow> Some (JObj ms, rest)))
      else (case parse_int_literal t of
              None \<Rightarrow> None
            | Some (lit, rest) \<Rightarrow> Some (JNum lit, rest)))"
| "parse_elems 0 s = None"
| "parse_elems (Suc n) s =
     (case parse_value n s of
        None \<Rightarrow> None
      | Some (x, rest) \<Rightarrow>
          (let t = skip_ws rest in
           if take 1 t = '']'' then Some ([x], drop 1 t)
           else if take 1 t = '','' then
             (case parse_elems n (drop 1 t) of
                None \<Rightarrow> None
              | Some (xs, rest') \<Rightarrow> Some (x # xs, rest'))
           else None))"
| "parse_members 0 s = None"
| "parse_members (Suc n) s =
     (let t = skip_ws s in
      if take 1 t = [CHR 0x22] then
        (case parse_chars [] (drop 1 t) of
           None \<Rightarrow> None
         | Some (key, rest) \<Rightarrow>
             (let u = skip_ws rest in
              if take 1 u = '':'' then
                (case parse_value n (drop 1 u) of
                   None \<Rightarrow> None
                 | Some (v, rest') \<Rightarrow>
                     (let w = skip_ws rest' in
                      if take 1 w = ''}'' then Some ([(key, v)], drop 1 w)
                      else if take 1 w = '','' then
                        (case parse_members n (drop 1 w) of
                           None \<Rightarrow> None
                         | Some (ms, rest'') \<Rightarrow> Some ((key, v) # ms, rest''))
                      else None))
              else None))
      else None)"

definition json_decode_error :: error where
  "json_decode_error = JSONDecodeError ''Expecting value''"

text \<open>
  \<^verbatim>\<open>json.loads(s)\<close> on the JSON texts made of objects, arrays, strings, integers,
  \<^verbatim>\<open>true\<close>, \<^verbatim>\<open>false\<close> and \<^verbatim>\<open>null\<close>: one value, then nothing but white space.
  Every text that is not JSON raises. Numbers with a fraction or an exponent and
  \<^verbatim>\<open>\u\<close> escapes, which the library accepts, are outside this fragment and are rejected
  here; no statement below depends on how such a text is read.
\<close>

definition json_loads :: "string \<Rightarrow> error + json" where
  "json_loads s =
     (case parse_value (2 * length s + 2) s of
        None \<Rightarrow> Inl json_decode_error
      | Some (v, rest) \<Rightarrow> if skip_ws rest = [] then Inr v else Inl json_decode_error)"

text \<open>\<^verbatim>\<open>'key' in result\<close> for a parsed document: only a dict can hold a key.\<close>

fun has_key :: "string \<Rightarrow> json \<Rightarrow> bool" where
  "has_key k (JObj ms) = (k \<in> fst ` set ms)"
| "has_key k _ = False"

text \<open>\<^verbatim>\<open>result['key']\<close> of a dict, by the last occurrence of the key.\<close>

fun get_key :: "string \<Rightarrow> json \<Rightarrow> json option" where
  "get_key k (JObj ms) = map_of (rev ms) k"
| "get_key k _ = None"

text \<open>
  \<^verbatim>\<open>json.dumps(xs)\<close> for a list of strings: quotes and backslashes are escaped; the
  strings hold printable ASCII otherwise.
\<close>

definition json_escape :: "string \<Rightarrow> string" where
  "json_escape s = concat (map (\<lambda>c. if c = CHR 0x22 \<or> c = CHR 0x5C then [CHR 0x5C, c] else [c]) s)"

fun join :: "string \<Rightarrow> string list \<Rightarrow> string" where
  "join sep [] = []"
| "join sep [x] = x"
| "join sep (x # y # ys) = x @ sep @ join sep (y # ys)"

definition json_dumps :: "string list \<Rightarrow> string" where
  "json_dumps xs = ''['' @ join '', '' (map (\<lambda>x. [CHR 0x22] @ json_escape x @ [CHR 0x22]) xs) @ '']''"

section \<open>Events handed between the agents\<close>

text \<open>
  The dictionaries built by \<^verbatim>\<open>CalendarAgent.get_all_events\<close> and
  \<^verbatim>\<open>DatabaseAgent.execute_query\<close>; \<open>'t\<close> is the type of the \<^verbatim>\<open>start\<close> and \<^verbatim>\<open>end\<close>
  entries, \<open>'a\<close> the type of \<^verbatim>\<open>attendees\<close> (a list of addresses from the provider, a
  parsed JSON document from the cache). The \<^verbatim>\<open>id\<close> is \<^verbatim>\<open>event.get('id')\<close> of the
  provider's event and may be None.
\<close>

record ('t, 'a) event =
  ev_id :: "string option"
  ev_summary :: string
  ev_description :: string
  ev_start :: 't
  ev_end :: 't
  ev_location :: string
  ev_attendees :: "'a"
  ev_status :: string
  ev_htmlLink :: string

section \<open>The calendar provider\<close>

text \<open>
  An event resource of the provider, as the dict the API client returns. Every entry may
  be absent. \<open>api_attendees\<close> holds the \<^verbatim>\<open>email\<close> of each attendee entry.
\<close>

record api_time =
  dateTime :: "string option"
  date :: "string option"
  timeZone :: "string option"

record api_event =
  api_id :: "string option"
  api_summary :: "string option"
  api_description :: "string option"
  api_location :: "string option"
  api_start :: "api_time option"
  api_end :: "api_time option"
  api_attendees :: "string list option"
  api_status :: "string option"
  api_htmlLink :: "string option"

text \<open>
  The provider is an external collaborator. A service is given by its replies:
  \<open>events_list timeMin timeMax\<close> is the outcome of \<^verbatim>\<open>events().list(...).execute()\<close>
  followed by \<^verbatim>\<open>.get('items', [])\<close>, \<open>events_get event_id\<close> and
  \<open>events_update event_id body\<close> those of \<^verbatim>\<open>get\<close> and \<^verbatim>\<open>update\<close>.
\<close>

record calendar_service =
  events_list :: "string \<Rightarrow> string \<Rightarrow> error + api_event list"
  events_get :: "string \<Rightarrow> error + api_event"
  events_update :: "string \<Rightarrow> api_event \<Rightarrow> error + api_event"

section \<open>Provider mutator and conflict detector (\<^verbatim>\<open>agents/calendar_management_agent.py\<close>)\<close>

text \<open>\<^verbatim>\<open>t.get('dateTime', t.get('date'))\<close>.\<close>

definition time_text :: "api_time \<Rightarrow> string option" where
  "time_text t = (case dateTime t of Some s \<Rightarrow> Some s | None \<Rightarrow> date t)"

definition missing_key :: "string \<Rightarrow> error" where
  "missing_key k = KeyError k"

definition none_text_error :: error where
  "none_text_error = TypeError ''NoneType where a str is needed''"

text \<open>
  The parsing of an event's start and end, written twice in the source with the same
  text (in \<^verbatim>\<open>modify_event\<close> and in \<^verbatim>\<open>check_conflicts\<close>): the start text decides the
  branch for both. With a \<^verbatim>\<open>T\<close> both are read by \<^verbatim>\<open>fromisoformat\<close> after replacing
  \<^verbatim>\<open>Z\<close>; without one both are read as dates and given the zone UTC.
\<close>

definition parse_event_times :: "api_event \<Rightarrow> error + datetime \<times> datetime" where
  "parse_event_times event =
     (case api_start event of
        None \<Rightarrow> Inl (missing_key ''start'')
      | Some st \<Rightarrow>
     (case api_end event of
        None \<Rightarrow> Inl (missing_key ''end'')
      | Some en \<Rightarrow>
     (case time_text st of
        None \<Rightarrow> Inl none_text_error
      | Some start_str \<Rightarrow>
          if CHR ''T'' \<in> set start_str then
            (case fromisoformat (replace_Z start_str) of
               Inl e \<Rightarrow> Inl e
             | Inr s \<Rightarrow>
            (case time_text en of
               None \<Rightarrow> Inl none_text_error
             | Some end_str \<Rightarrow>
            (case fromisoformat (replace_Z end_str) of
               Inl e \<Rightarrow> Inl e
             | Inr e \<Rightarrow> Inr (s, e))))
          else
            (case fromisoformat start_str of
               Inl e \<Rightarrow> Inl e
             | Inr s \<Rightarrow>
            (case time_text en of
               None \<Rightarrow> Inl none_text_error
             | Some end_str \<Rightarrow>
            (case fromisoformat end_str of
               Inl e \<Rightarrow> Inl e
             | Inr e \<Rightarrow> Inr (replace_tzinfo_utc s, replace_tzinfo_utc e)))))))"

text \<open>
  The conversion to UTC before every provider call: through the manager when there is
  one, else \<^verbatim>\<open>dt.astimezone(timezone.utc) if dt.tzinfo else dt\<close>.
\<close>

definition to_utc :: "timezone_manager option \<Rightarrow> datetime \<Rightarrow> datetime" where
  "to_utc tm dt =
     (case tm of
        Some m \<Rightarrow> convert_to_utc m dt
      | None \<Rightarrow> (case dt of Aware w off \<Rightarrow> astimezone (fixed_offset 0) w off | Naive w \<Rightarrow> Naive w))"

definition utc_time :: "datetime \<Rightarrow> api_time" where
  "utc_time dt = \<lparr>dateTime = Some (strftime_rfc3339 dt), date = None, timeZone = Some ''UTC''\<rparr>"

subsection \<open>\<^verbatim>\<open>check_conflicts\<close>\<close>


text \<open>Python's truth value of an optional string: None and the empty string are false.\<close>

definition truthy :: "string option \<Rightarrow> bool" where
  "truthy s \<longleftrightarrow> s \<noteq> None \<and> s \<noteq> Some []"





text \<open>
  The claim about \<^verbatim>\<open>check_conflicts\<close>, in the words of the specification: an event is
  reported when its id is not the excluded one and the proposed range \<open>[s, e]\<close> (UTC
  instants) passes the strict test \<open>s < other_end \<and> e > other_start\<close> against it.
\<close>

fun utc_instant :: "datetime \<Rightarrow> int" where
  "utc_instant (Naive w) = w"
| "utc_instant (Aware w off) = w - off"

fun is_aware :: "datetime \<Rightarrow> bool" where
  "is_aware (Naive w) = False"
| "is_aware (Aware w off) = True"



subsection \<open>\<^verbatim>\<open>modify_event\<close>\<close>

text \<open>
  The end time after the first step of \<^verbatim>\<open>modify_event\<close>: when a start is given and no
  end, the end is the start plus the duration of the event read from the provider. (A
  \<^verbatim>\<open>datetime\<close> is always true, so \<^verbatim>\<open>if start_time and not end_time\<close> tests for None.)
\<close>

definition inferred_end ::
  "api_event \<Rightarrow> datetime option \<Rightarrow> datetime option \<Rightarrow> error + datetime option" where
  "inferred_end event start_time end_time =
     (case (start_time, end_time) of
        (Some st, None) \<Rightarrow>
          (case parse_event_times event of
             Inl e \<Rightarrow> Inl e
           | Inr (original_start, original_end) \<Rightarrow>
               (case dt_sub original_end original_start of
                  Inl e \<Rightarrow> Inl e
                | Inr duration \<Rightarrow> Inr (Some (dt_add st duration))))
      | _ \<Rightarrow> Inr end_time)"

text \<open>
  The body sent to \<^verbatim>\<open>events().update\<close>: the event read from the provider with the
  given fields written over it. \<^verbatim>\<open>if summary:\<close> holds for a non-empty string only; the
  other three fields are tested with \<^verbatim>\<open>is not None\<close>.
\<close>

definition modify_body ::
  "timezone_manager option \<Rightarrow> api_event \<Rightarrow> string option \<Rightarrow> datetime option \<Rightarrow> datetime option
   \<Rightarrow> string option \<Rightarrow> string option \<Rightarrow> string list option \<Rightarrow> error + api_event" where
  "modify_body tm event summary start_time end_time description location attendees =
     (case inferred_end event start_time end_time of
        Inl e \<Rightarrow> Inl e
      | Inr end_time' \<Rightarrow>
          (let e1 = (if truthy summary then event\<lparr>api_summary := summary\<rparr> else event);
               e2 = (if description \<noteq> None then e1\<lparr>api_description := description\<rparr> else e1);
               e3 = (if location \<noteq> None then e2\<lparr>api_location := location\<rparr> else e2);
               e4 = (if attendees \<noteq> None then e3\<lparr>api_attendees := attendees\<rparr> else e3);
               e5 = (case start_time of
                       Some st \<Rightarrow> e4\<lparr>api_start := Some (utc_time (to_utc tm st))\<rparr>
                     | None \<Rightarrow> e4);
               e6 = (case end_time' of
                       Some en \<Rightarrow> e5\<lparr>api_end := Some (utc_time (to_utc tm en))\<rparr>
                     | None \<Rightarrow> e5)
           in Inr e6))"

record action_result =
  success :: bool
  result_event_id :: "string option"
  result_summary :: "string option"
  message :: string
  error_detail :: "string option"

definition str_of_option :: "string option \<Rightarrow> string" where
  "str_of_option v = (case v of None \<Rightarrow> ''None'' | Some s \<Rightarrow> s)"

text \<open>The two \<^verbatim>\<open>except\<close> clauses of \<^verbatim>\<open>modify_event\<close>.\<close>

definition modify_failure :: "error \<Rightarrow> action_result" where
  "modify_failure e =
     \<lparr>success = False, result_event_id = None, result_summary = None,
      message = (case e of
                   HttpError m \<Rightarrow> ''Failed to modify event: '' @ m
                 | _ \<Rightarrow> ''Error modifying event: '' @ str_of_error e),
      error_detail = Some (str_of_error e)\<rparr>"

definition modify_event ::
  "calendar_service \<Rightarrow> timezone_manager option \<Rightarrow> string \<Rightarrow> string option \<Rightarrow> datetime option
   \<Rightarrow> datetime option \<Rightarrow> string option \<Rightarrow> string option \<Rightarrow> string list option \<Rightarrow> action_result" where
  "modify_event service tm event_id summary start_time end_time description location attendees =
     (case events_get service event_id of
        Inl e \<Rightarrow> modify_failure e
      | Inr event \<Rightarrow>
          (case modify_body tm event summary start_time end_time description location attendees of
             Inl e \<Rightarrow> modify_failure e
           | Inr body \<Rightarrow>
               (case events_update service event_id body of
                  Inl e \<Rightarrow> modify_failure e
                | Inr updated_event \<Rightarrow>
                    \<lparr>success = True,
                     result_event_id = api_id updated_event,
                     result_summary = api_summary updated_event,
                     message = ''Event '' @ [CHR 0x27] @ str_of_option (api_summary updated_event)
                               @ [CHR 0x27] @ '' updated successfully'',
                     error_detail = None\<rparr>)))"

section \<open>Responders (\<^verbatim>\<open>agents/response_agent.py\<close>, \<^verbatim>\<open>agents/qa_agent.py\<close>)\<close>

text \<open>
  The \<^verbatim>\<open>except\<close> branch of \<^verbatim>\<open>ResponseAgent.generate_response\<close>.
\<close>

definition count_message :: "'e list \<Rightarrow> string" where
  "count_message events =
     (if events \<noteq> [] then ''Found '' @ str_of_nat (length events) @ '' event(s) matching your query.''
      else ''I don't see any events matching your request.'')"

text \<open>
  \<^verbatim>\<open>ResponseAgent.generate_response\<close>. The prompt is built before the \<^verbatim>\<open>try\<close> from the
  first 20 events and only feeds the completion call, whose outcome is \<open>response\<close>.
\<close>

definition generate_response :: "completion \<Rightarrow> string \<Rightarrow> (datetime, 'a) event list \<Rightarrow> string" where
  "generate_response response user_query events =
     (case response of
        Inl e \<Rightarrow> count_message events
      | Inr content \<Rightarrow>
          (case content_strip content of
             Inl e \<Rightarrow> count_message events
           | Inr text \<Rightarrow> text))"

text \<open>\<^verbatim>\<open>QAAgent.answer\<close>: its \<^verbatim>\<open>except\<close> branch returns \<^verbatim>\<open>f"Error: {str(e)}"\<close>.\<close>

definition answer :: "completion \<Rightarrow> string \<Rightarrow> (datetime, 'a) event list \<Rightarrow> string" where
  "answer response user_query events =
     (case response of
        Inl e \<Rightarrow> ''Error: '' @ str_of_error e
      | Inr content \<Rightarrow>
          (case content_strip content of
             Inl e \<Rightarrow> ''Error: '' @ str_of_error e
           | Inr text \<Rightarrow> text))"

section \<open>Query translator (\<^verbatim>\<open>agents/sql_agent.py\<close>)\<close>

text \<open>
  The body of the \<^verbatim>\<open>try\<close> in \<^verbatim>\<open>SQLAgent.text_to_sql\<close>: the content is stripped, and a
  content that starts with a fence is replaced by the piece after the first fence, without
  a leading \<^verbatim>\<open>sql\<close>, stripped again.
\<close>

definition index1_error :: error where
  "index1_error = IndexError ''list index out of range''"

definition generated_sql :: "completion \<Rightarrow> error + string" where
  "generated_sql response =
     (case response of
        Inl e \<Rightarrow> Inl e
      | Inr content \<Rightarrow>
          (case content_strip content of
             Inl e \<Rightarrow> Inl e
           | Inr sql \<Rightarrow>
               (if startswith sql fence then
                  (case split_fence sql of
                     p0 # p1 # ps \<Rightarrow>
                       Inr (strip (if startswith p1 ''sql'' then drop 3 p1 else p1))
                   | _ \<Rightarrow> Inl index1_error)
                else Inr sql)))"

text \<open>
  A \<^verbatim>\<open>QAAgent\<close> is represented by the outcome of its own completion call. The result of
  \<^verbatim>\<open>text_to_sql\<close> is the returned value (\<^verbatim>\<open>Optional[str]\<close>) and the answer printed by the
  fallback, if any. \<^verbatim>\<open>events\<close> has the default None.
\<close>

type_synonym qa_agent = completion

definition select_all :: string where
  "select_all = ''SELECT * FROM events ORDER BY start_time''"

definition text_to_sql ::
  "qa_agent option \<Rightarrow> completion \<Rightarrow> string \<Rightarrow> (datetime, 'a) event list option
   \<Rightarrow> string option \<times> string option" where
  "text_to_sql qa response user_query events =
     (case generated_sql response of
        Inr sql \<Rightarrow> (Some sql, None)
      | Inl e \<Rightarrow>
          (case qa of
             None \<Rightarrow> (Some select_all, None)
           | Some agent \<Rightarrow>
               (case events of
                  None \<Rightarrow> (Some select_all, None)
                | Some [] \<Rightarrow> (Some select_all, None)
                | Some (ev # evs) \<Rightarrow> (None, Some (answer agent user_query (ev # evs))))))"

section \<open>Event cache (\<^verbatim>\<open>database.py\<close>, \<^verbatim>\<open>agents/calendar_agent.py\<close>)\<close>

text \<open>
  A row of the table \<^verbatim>\<open>events\<close>. The primary key is a \<^verbatim>\<open>TEXT\<close> column, for which
  SQLite admits NULL, each NULL being distinct from every other key. The table is the
  list of its rows in insertion order.
\<close>

record row =
  row_id :: "string option"
  row_summary :: string
  row_description :: string
  row_start_time :: string
  row_end_time :: string
  row_location :: string
  row_attendees :: string
  row_status :: string
  row_html_link :: string
  row_created_at :: string
  row_updated_at :: string

type_synonym table = "row list"

text \<open>\<^verbatim>\<open>TimezoneManager.format_for_sqlite\<close>.\<close>

definition format_for_sqlite :: "timezone_manager \<Rightarrow> datetime \<Rightarrow> string" where
  "format_for_sqlite tm dt =
     (let utc_dt = (case dt of
                      Naive w \<Rightarrow> astimezone pytz_UTC w (localize_offset (user_timezone tm) w)
                    | Aware w off \<Rightarrow> astimezone pytz_UTC w off)
      in strftime_sqlite utc_dt)"

text \<open>
  The \<^verbatim>\<open>start\<close> or \<^verbatim>\<open>end\<close> entry of an event given to \<^verbatim>\<open>_store_events\<close>: a
  \<^verbatim>\<open>datetime\<close>, or any other value, which is bound to the statement as it is.
\<close>

datatype time_field = DT datetime | Raw string

definition stored_time :: "timezone_manager option \<Rightarrow> time_field \<Rightarrow> string" where
  "stored_time tm t =
     (case t of
        DT dt \<Rightarrow> (case tm of Some m \<Rightarrow> format_for_sqlite m dt | None \<Rightarrow> strftime_sqlite dt)
      | Raw s \<Rightarrow> s)"

text \<open>
  \<^verbatim>\<open>(SELECT created_at FROM events WHERE id = ?)\<close>: the value of the first row with that
  key, NULL when there is none; a NULL parameter equals no key.
\<close>

definition select_created_at :: "table \<Rightarrow> string option \<Rightarrow> string option" where
  "select_created_at tbl key =
     (case filter (\<lambda>r. key \<noteq> None \<and> row_id r = key) tbl of
        [] \<Rightarrow> None
      | r # rs \<Rightarrow> Some (row_created_at r))"

text \<open>\<^verbatim>\<open>INSERT OR REPLACE\<close>: the rows with the same key are deleted, the new row is added.\<close>

definition insert_or_replace :: "row \<Rightarrow> table \<Rightarrow> table" where
  "insert_or_replace r tbl =
     (if row_id r = None then tbl @ [r]
      else filter (\<lambda>x. row_id x \<noteq> row_id r) tbl @ [r])"

text \<open>
  The values bound to the statement of \<^verbatim>\<open>_store_events\<close> for one event, given the
  value \<open>created\<close> that the \<^verbatim>\<open>COALESCE\<close> yields; \<open>now\<close> is the timestamp text
  computed once before the loop.
\<close>

definition stored_row ::
  "timezone_manager option \<Rightarrow> string \<Rightarrow> string \<Rightarrow> (time_field, string list) event \<Rightarrow> row" where
  "stored_row tm created now event =
     \<lparr>row_id = ev_id event,
      row_summary = ev_summary event,
      row_description = ev_description event,
      row_start_time = stored_time tm (ev_start event),
      row_end_time = stored_time tm (ev_end event),
      row_location = ev_location event,
      row_attendees = json_dumps (ev_attendees event),
      row_status = ev_status event,
      row_html_link = ev_htmlLink event,
      row_created_at = created,
      row_updated_at = now\<rparr>"

text \<open>
  One iteration of the loop of \<^verbatim>\<open>_store_events\<close>:
  \<^verbatim>\<open>COALESCE((SELECT created_at FROM events WHERE id = ?), now)\<close> is evaluated on the
  table before the row is replaced.
\<close>

definition store_event ::
  "timezone_manager option \<Rightarrow> string \<Rightarrow> (time_field, string list) event \<Rightarrow> table \<Rightarrow> table" where
  "store_event tm now event tbl =
     insert_or_replace
       (stored_row tm (case select_created_at tbl (ev_id event) of Some c \<Rightarrow> c | None \<Rightarrow> now)
          now event)
       tbl"

fun store_loop ::
  "timezone_manager option \<Rightarrow> string \<Rightarrow> (time_field, string list) event list \<Rightarrow> table \<Rightarrow> table" where
  "store_loop tm now [] tbl = tbl"
| "store_loop tm now (event # events) tbl = store_loop tm now events (store_event tm now event tbl)"

text \<open>
  \<^verbatim>\<open>CalendarAgent._store_events\<close>: \<open>clock\<close> is the reading of the clock
  (\<^verbatim>\<open>now_in_user_tz()\<close> with a manager, \<^verbatim>\<open>datetime.now()\<close> without). The result is the
  count returned and the table after the commit. Every bound value is a text and the
  columns declared \<^verbatim>\<open>NOT NULL\<close> get one, so no statement violates a constraint; the
  \<^verbatim>\<open>except\<close> branch (nothing committed, 0 returned) is reached on a failure of the
  storage only, which is not modelled.
\<close>

definition now_text :: "timezone_manager option \<Rightarrow> datetime \<Rightarrow> string" where
  "now_text tm clock =
     (case tm of Some m \<Rightarrow> format_for_sqlite m clock | None \<Rightarrow> strftime_sqlite clock)"

definition store_events ::
  "timezone_manager option \<Rightarrow> datetime \<Rightarrow> (time_field, string list) event list \<Rightarrow> table
   \<Rightarrow> nat \<times> table" where
  "store_events tm clock events tbl =
     (let now = now_text tm clock
      in (length events, store_loop tm now events tbl))"

text \<open>The rows of the cache with a given id.\<close>

definition rows_with :: "string \<Rightarrow> table \<Rightarrow> row list" where
  "rows_with i tbl = filter (\<lambda>r. row_id r = Some i) tbl"

section \<open>Cache reader (\<^verbatim>\<open>agents/database_agent.py\<close>)\<close>

text \<open>\<^verbatim>\<open>TimezoneManager.parse_from_sqlite\<close>.\<close>

definition parse_from_sqlite :: "timezone_manager \<Rightarrow> string \<Rightarrow> error + datetime" where
  "parse_from_sqlite tm sqlite_str =
     (case strptime_sqlite sqlite_str of
        Inl e \<Rightarrow> Inl e
      | Inr utc_dt \<Rightarrow>
          Inr (astimezone (user_timezone tm) (wall utc_dt) (localize_offset pytz_UTC (wall utc_dt))))"

text \<open>The first parse of a stored time in \<^verbatim>\<open>execute_query\<close>, by the presence of a \<^verbatim>\<open>T\<close>.\<close>

definition parse_stored :: "string \<Rightarrow> error + datetime" where
  "parse_stored s = (if CHR ''T'' \<in> set s then fromisoformat s else strptime_sqlite s)"

text \<open>
  One iteration of the loop of \<^verbatim>\<open>execute_query\<close>: both times are parsed by their format,
  then, with a manager, parsed again from the same texts by \<^verbatim>\<open>parse_from_sqlite\<close>.
\<close>

definition row_to_event :: "timezone_manager option \<Rightarrow> row \<Rightarrow> error + (datetime, json) event" where
  "row_to_event tm r =
     (case parse_stored (row_start_time r) of
        Inl e \<Rightarrow> Inl e
      | Inr start_dt \<Rightarrow>
     (case parse_stored (row_end_time r) of
        Inl e \<Rightarrow> Inl e
      | Inr end_dt \<Rightarrow>
     (case (case tm of
              None \<Rightarrow> Inr (start_dt, end_dt)
            | Some m \<Rightarrow>
                (case parse_from_sqlite m (row_start_time r) of
                   Inl e \<Rightarrow> Inl e
                 | Inr s \<Rightarrow>
                     (case parse_from_sqlite m (row_end_time r) of
                        Inl e \<Rightarrow> Inl e
                      | Inr e \<Rightarrow> Inr (s, e)))) of
        Inl e \<Rightarrow> Inl e
      | Inr (s, e) \<Rightarrow>
     (case (if row_attendees r \<noteq> [] then json_loads (row_attendees r) else Inr (JArr [])) of
        Inl err \<Rightarrow> Inl err
      | Inr atts \<Rightarrow>
          Inr \<lparr>ev_id = row_id r,
               ev_summary = row_summary r,
               ev_description = row_description r,
               ev_start = s,
               ev_end = e,
               ev_location = row_location r,
               ev_attendees = atts,
               ev_status = row_status r,
               ev_htmlLink = row_html_link r\<rparr>))))"

fun rows_loop :: "timezone_manager option \<Rightarrow> row list \<Rightarrow> error + (datetime, json) event list" where
  "rows_loop tm [] = Inr []"
| "rows_loop tm (r # rs) =
     (case row_to_event tm r of
        Inl e \<Rightarrow> Inl e
      | Inr ev \<Rightarrow>
          (case rows_loop tm rs of
             Inl e \<Rightarrow> Inl e
           | Inr evs \<Rightarrow> Inr (ev # evs)))"

text \<open>
  \<^verbatim>\<open>DatabaseAgent.execute_query\<close>; \<open>fetched\<close> is the outcome of running the statement
  (\<^verbatim>\<open>cursor.execute\<close> and \<^verbatim>\<open>fetchall\<close>). Any exception gives the empty list.
\<close>

definition execute_query ::
  "timezone_manager option \<Rightarrow> error + row list \<Rightarrow> (datetime, json) event list" where
  "execute_query tm fetched =
     (case fetched of
        Inl e \<Rightarrow> []
      | Inr rows \<Rightarrow> (case rows_loop tm rows of Inl e \<Rightarrow> [] | Inr events \<Rightarrow> events))"

section \<open>Result validator (\<^verbatim>\<open>agents/validation_agent.py\<close>)\<close>

text \<open>
  The body of the \<^verbatim>\<open>try\<close> in \<^verbatim>\<open>ValidationAgent.validate\<close>: the content without its
  Markdown fence, parsed as JSON. The prompt is built before the \<^verbatim>\<open>try\<close> from the
  query, the action and the event; \<open>response\<close> is the outcome of the completion call.
\<close>

definition unfenced_json :: "string \<Rightarrow> string" where
  "unfenced_json content =
     (if startswith content fence then
        (let parts = split_fence content;
             c1 = (if length parts > 1 then
                     (let p = parts ! 1 in if startswith p ''json'' then drop 4 p else p)
                   else content)
         in strip c1)
      else content)"

text \<open>The dict returned by the \<^verbatim>\<open>except\<close> branch of \<^verbatim>\<open>validate\<close>.\<close>

definition validation_error :: "error \<Rightarrow> json" where
  "validation_error e =
     JObj [(''valid'', JBool True), (''message'', JStr (''Validation error: '' @ str_of_error e))]"

definition validate ::
  "completion \<Rightarrow> string \<Rightarrow> string \<Rightarrow> (datetime, json) event option \<Rightarrow> json" where
  "validate response user_query action_type event_data =
     (case (case response of
              Inl e \<Rightarrow> Inl e
            | Inr content \<Rightarrow>
                (case content_strip content of
                   Inl e \<Rightarrow> Inl e
                 | Inr stripped \<Rightarrow> json_loads (unfenced_json stripped))) of
        Inl e \<Rightarrow> validation_error e
      | Inr result \<Rightarrow> result)"

section \<open>Worked inputs\<close>




definition new_york_winter :: "timezone_manager option" where
  "new_york_winter = Some \<lparr>user_timezone = fixed_offset (- 18000)\<rparr>"

text \<open>
  The scenario of the specification: an event from 09:00 to 10:30 on 2024-03-11, moved to
  start at 09:00 on 2024-03-12 by a user in the zone UTC.
\<close>

definition utc_manager :: "timezone_manager option" where
  "utc_manager = Some \<lparr>user_timezone = pytz_UTC\<rparr>"


text \<open>
  The same event as \<^verbatim>\<open>get_all_events\<close> hands it to \<^verbatim>\<open>_store_events\<close>, the event as
  fetched again after it was renamed and moved by a day, and another event.
\<close>

definition sync_fetched :: "(time_field, string list) event" where
  "sync_fetched =
     \<lparr>ev_id = Some ''e1'', ev_summary = ''Sync'', ev_description = [],
      ev_start = DT (Aware (wall_of_civil 2024 3 11 9 0 0) 0),
      ev_end = DT (Aware (wall_of_civil 2024 3 11 10 30 0) 0),
      ev_location = [], ev_attendees = [''ann@example.com''],
      ev_status = ''confirmed'', ev_htmlLink = []\<rparr>"

definition sync_moved :: "(time_field, string list) event" where
  "sync_moved =
     \<lparr>ev_id = Some ''e1'', ev_summary = ''Sync (moved)'', ev_description = ''weekly'',
      ev_start = DT (Aware (wall_of_civil 2024 3 12 9 0 0) 0),
      ev_end = DT (Aware (wall_of_civil 2024 3 12 10 30 0) 0),
      ev_location = ''Room 4'', ev_attendees = [],
      ev_status = ''tentative'', ev_htmlLink = ''https://example.com/e1''\<rparr>"

definition lunch_fetched :: "(time_field, string list) event" where
  "lunch_fetched =
     \<lparr>ev_id = Some ''e2'', ev_summary = ''Lunch'', ev_description = [],
      ev_start = DT (Aware (wall_of_civil 2024 3 12 12 0 0) 0),
      ev_end = DT (Aware (wall_of_civil 2024 3 12 13 0 0) 0),
      ev_location = [], ev_attendees = [],
      ev_status = ''confirmed'', ev_htmlLink = []\<rparr>"

text \<open>The cache after a first refresh at 08:00 on 2024-03-10 that stored the event.\<close>

definition cache_after_first :: table where
  "cache_after_first =
     snd (store_events utc_manager (Aware (wall_of_civil 2024 3 10 8 0 0) 0) [sync_fetched] [])"

text \<open>A cache row whose times are in the ISO-8601 format with an offset.\<close>

definition iso_row :: row where
  "iso_row =
     \<lparr>row_id = Some ''e1'', row_summary = ''Sync'', row_description = [],
      row_start_time = ''2024-03-11T09:00:00+00:00'', row_end_time = ''2024-03-11T10:30:00+00:00'',
      row_location = [], row_attendees = ''[]'', row_status = ''confirmed'', row_html_link = [],
      row_created_at = ''2024-03-10 08:00:00'', row_updated_at = ''2024-03-10 08:00:00''\<rparr>"

text \<open>An event of the provider's live list, as the query path hands it to the QA agent.\<close>

definition lunch_listed :: "(datetime, string list) event" where
  "lunch_listed =
     \<lparr>ev_id = Some ''e2'', ev_summary = ''Lunch'', ev_description = [],
      ev_start = Aware (wall_of_civil 2024 3 12 12 0 0) 0,
      ev_end = Aware (wall_of_civil 2024 3 12 13 0 0) 0,
      ev_location = [], ev_attendees = [],
      ev_status = ''confirmed'', ev_htmlLink = []\<rparr>"

section \<open>Intent classification\<close>

text \<open>
  C4. For every outcome of the model call, \<open>identify_intent\<close> returns one of query, create,
  modify, cancel, quit; it returns query when the call raises, when the content is empty,
  and whenever the trimmed, lowercased content is not one of the five words.
\<close>

theorem identify_intent_fail_safe:
  "identify_intent response q \<in> set valid_intents
   \<and> identify_intent (Inl e) q = ''query''
   \<and> identify_intent (Inr (Some [])) q = ''query''
   \<and> (lower (strip c) \<notin> set valid_intents \<longrightarrow> identify_intent (Inr (Some c)) q = ''query'')"
proof -
  have q: "''query'' \<in> set valid_intents"
    by (simp add: valid_intents_def)
  have a: "identify_intent response q \<in> set valid_intents"
    using q by (auto simp: identify_intent_def Let_def split: sum.splits)
  have b: "identify_intent (Inl e) q = ''query''"
    by (simp add: identify_intent_def)
  have c: "identify_intent (Inr (Some [])) q = ''query''"
    by (simp add: identify_intent_def content_strip_def strip_def lower_def valid_intents_def)
  have d: "lower (strip c) \<notin> set valid_intents \<longrightarrow> identify_intent (Inr (Some c)) q = ''query''"
    by (simp add: identify_intent_def content_strip_def)
  from a b c d show ?thesis by blast
qed

theorem identify_intent_fail_safe_witness:
  "lower (strip '' Maybe'') \<notin> set valid_intents
   \<and> identify_intent (Inr (Some '' Maybe'')) ''lunch?'' = ''query''"
proof -
  have h: "lower (strip '' Maybe'') \<notin> set valid_intents"
    by (simp add: strip_def isspace_def lower_def lower_char_def valid_intents_def)
  from identify_intent_fail_safe [of "Inl (APIError [])" "''lunch?''" "APIError []" "'' Maybe''"] h
  have "identify_intent (Inr (Some '' Maybe'')) ''lunch?'' = ''query''" by blast
  with h show ?thesis by blast
qed

section \<open>Conflict detection\<close>


lemma to_utc_with_manager_aware: "is_aware (to_utc (Some m) dt)"
  by (cases dt) (simp_all add: to_utc_def convert_to_utc_def astimezone_def Let_def)




section \<open>Modification\<close>






section \<open>Time zone round trip\<close>

text \<open>
  C5. For every timezone manager (whatever zone it holds) and every datetime \<open>t\<close>,
  aware or naive and then read as UTC, converting \<open>t\<close> to the user's zone and back to UTC
  gives a UTC datetime denoting the instant of \<open>t\<close>.
\<close>

theorem round_trip_same_instant:
  "utc_instant (convert_to_utc tm (convert_to_user_tz tm t)) = utc_instant t
   \<and> (\<exists>w. convert_to_utc tm (convert_to_user_tz tm t) = Aware w 0)"
  by (cases t)
     (simp_all add: convert_to_utc_def convert_to_user_tz_def astimezone_def
        pytz_UTC_def fixed_offset_def Let_def)

section \<open>Cache upsert\<close>

lemma select_created_at_rows_with:
  "select_created_at tbl (Some i)
   = (case rows_with i tbl of [] \<Rightarrow> None | r # rs \<Rightarrow> Some (row_created_at r))"
  by (simp add: select_created_at_def rows_with_def)

lemma store_event_same:
  assumes "ev_id e = Some i"
  shows "rows_with i (store_event tm now e tbl)
         = [stored_row tm (case select_created_at tbl (Some i) of Some c \<Rightarrow> c | None \<Rightarrow> now) now e]"
  using assms
  by (simp add: store_event_def insert_or_replace_def rows_with_def stored_row_def)

lemma store_event_other:
  assumes "ev_id e \<noteq> Some i"
  shows "rows_with i (store_event tm now e tbl) = rows_with i tbl"
proof (cases "ev_id e")
  case None
  then show ?thesis
    by (simp add: store_event_def insert_or_replace_def rows_with_def stored_row_def)
next
  case (Some j)
  with assms have ne: "j \<noteq> i" by simp
  have "filter (\<lambda>r. row_id r = Some i) (filter (\<lambda>x. row_id x \<noteq> Some j) tbl)
        = filter (\<lambda>r. row_id r = Some i) tbl"
    using ne by (induction tbl) auto
  with Some ne show ?thesis
    by (simp add: store_event_def insert_or_replace_def rows_with_def stored_row_def)
qed

lemma store_loop_others:
  assumes "list_all (\<lambda>e. ev_id e \<noteq> Some i) es"
  shows "rows_with i (store_loop tm now es tbl) = rows_with i tbl"
  using assms
  by (induction es arbitrary: tbl) (simp_all add: store_event_other)

lemma store_event_keeps_created:
  assumes "select_created_at tbl (Some i) = Some c"
  shows "select_created_at (store_event tm now e tbl) (Some i) = Some c"
proof (cases "ev_id e = Some i")
  case True
  from store_event_same [OF True, of tm now tbl] assms
  show ?thesis by (simp add: select_created_at_rows_with stored_row_def)
next
  case False
  from store_event_other [OF False, of tm now tbl] assms
  show ?thesis by (simp add: select_created_at_rows_with)
qed

lemma store_loop_keeps_created:
  assumes "select_created_at tbl (Some i) = Some c"
  shows "select_created_at (store_loop tm now es tbl) (Some i) = Some c"
  using assms
  by (induction es arbitrary: tbl) (simp_all add: store_event_keeps_created)

lemma store_loop_append:
  "store_loop tm now (xs @ ys) tbl = store_loop tm now ys (store_loop tm now xs tbl)"
  by (induction xs arbitrary: tbl) simp_all

text \<open>The first insert of an id writes the current timestamp as \<open>created_at\<close>.\<close>

lemma first_insert_created_at:
  assumes "rows_with i tbl = []" and "ev_id e = Some i"
  shows "rows_with i (store_event tm now e tbl) = [stored_row tm now now e]"
  using store_event_same [OF assms(2), of tm now tbl] assms(1)
  by (simp add: select_created_at_rows_with)

text \<open>
  C3. When the cache holds a row with id \<open>i\<close> whose \<open>created_at\<close> is \<open>c\<close>, a run of
  \<open>_store_events\<close> over a list in which \<open>e\<close> is the last event with id \<open>i\<close> leaves
  exactly one row with that id: its \<open>created_at\<close> is still \<open>c\<close>, its \<open>updated_at\<close> is the
  timestamp of this run, and every other column holds the value taken from \<open>e\<close>.
\<close>

theorem upsert_keeps_created_at:
  assumes "select_created_at tbl (Some i) = Some c"
      and "ev_id e = Some i"
      and "list_all (\<lambda>x. ev_id x \<noteq> Some i) later"
  shows "rows_with i (snd (store_events tm clock (earlier @ e # later) tbl))
         = [\<lparr>row_id = Some i,
             row_summary = ev_summary e,
             row_description = ev_description e,
             row_start_time = stored_time tm (ev_start e),
             row_end_time = stored_time tm (ev_end e),
             row_location = ev_location e,
             row_attendees = json_dumps (ev_attendees e),
             row_status = ev_status e,
             row_html_link = ev_htmlLink e,
             row_created_at = c,
             row_updated_at = now_text tm clock\<rparr>]"
proof -
  let ?now = "now_text tm clock"
  let ?t1 = "store_loop tm ?now earlier tbl"
  have c1: "select_created_at ?t1 (Some i) = Some c"
    using assms(1) by (rule store_loop_keeps_created)
  have "rows_with i (store_event tm ?now e ?t1) = [stored_row tm c ?now e]"
    using store_event_same [OF assms(2), of tm ?now ?t1] c1 by simp
  then have "rows_with i (store_loop tm ?now later (store_event tm ?now e ?t1))
             = [stored_row tm c ?now e]"
    using store_loop_others [OF assms(3)] by simp
  then show ?thesis
    using assms(2) by (simp add: store_events_def Let_def store_loop_append stored_row_def)
qed

theorem upsert_keeps_created_at_witness:
  "select_created_at cache_after_first (Some ''e1'') = Some ''2024-03-10 08:00:00''
   \<and> ev_id sync_moved = Some ''e1''
   \<and> list_all (\<lambda>x. ev_id x \<noteq> Some ''e1'') [lunch_fetched]
   \<and> rows_with ''e1''
        (snd (store_events utc_manager (Aware (wall_of_civil 2024 3 11 12 0 0) 0)
                ([sync_fetched] @ sync_moved # [lunch_fetched]) cache_after_first))
      = [\<lparr>row_id = Some ''e1'',
          row_summary = ''Sync (moved)'',
          row_description = ''weekly'',
          row_start_time = ''2024-03-12 09:00:00'',
          row_end_time = ''2024-03-12 10:30:00'',
          row_location = ''Room 4'',
          row_attendees = ''[]'',
          row_status = ''tentative'',
          row_html_link = ''https://example.com/e1'',
          row_created_at = ''2024-03-10 08:00:00'',
          row_updated_at = ''2024-03-11 12:00:00''\<rparr>]"
proof -
  have h1: "select_created_at cache_after_first (Some ''e1'') = Some ''2024-03-10 08:00:00''"
    by code_simp
  have h2: "ev_id sync_moved = Some ''e1''"
    by (simp add: sync_moved_def)
  have h3: "list_all (\<lambda>x. ev_id x \<noteq> Some ''e1'') [lunch_fetched]"
    by (simp add: lunch_fetched_def)
  have v1: "stored_time utc_manager (ev_start sync_moved) = ''2024-03-12 09:00:00''" by code_simp
  have v2: "stored_time utc_manager (ev_end sync_moved) = ''2024-03-12 10:30:00''" by code_simp
  have v3: "now_text utc_manager (Aware (wall_of_civil 2024 3 11 12 0 0) 0) = ''2024-03-11 12:00:00''"
    by code_simp
  have v4: "json_dumps (ev_attendees sync_moved) = ''[]''" by code_simp
  from upsert_keeps_created_at [OF h1 h2 h3, of utc_manager
      "Aware (wall_of_civil 2024 3 11 12 0 0) 0" "[sync_fetched]"]
  have "rows_with ''e1''
        (snd (store_events utc_manager (Aware (wall_of_civil 2024 3 11 12 0 0) 0)
                ([sync_fetched] @ sync_moved # [lunch_fetched]) cache_after_first))
      = [\<lparr>row_id = Some ''e1'',
          row_summary = ev_summary sync_moved,
          row_description = ev_description sync_moved,
          row_start_time = ''2024-03-12 09:00:00'',
          row_end_time = ''2024-03-12 10:30:00'',
          row_location = ev_location sync_moved,
          row_attendees = ''[]'',
          row_status = ev_status sync_moved,
          row_html_link = ev_htmlLink sync_moved,
          row_created_at = ''2024-03-10 08:00:00'',
          row_updated_at = ''2024-03-11 12:00:00''\<rparr>]"
    by (simp only: v1 v2 v3 v4)
  then have "rows_with ''e1''
        (snd (store_events utc_manager (Aware (wall_of_civil 2024 3 11 12 0 0) 0)
                ([sync_fetched] @ sync_moved # [lunch_fetched]) cache_after_first))
      = [\<lparr>row_id = Some ''e1'',
          row_summary = ''Sync (moved)'',
          row_description = ''weekly'',
          row_start_time = ''2024-03-12 09:00:00'',
          row_end_time = ''2024-03-12 10:30:00'',
          row_location = ''Room 4'',
          row_attendees = ''[]'',
          row_status = ''tentative'',
          row_html_link = ''https://example.com/e1'',
          row_created_at = ''2024-03-10 08:00:00'',
          row_updated_at = ''2024-03-11 12:00:00''\<rparr>]"
    by (simp add: sync_moved_def)
  with h1 h2 h3 show ?thesis by blast
qed

section \<open>Cache read path\<close>

lemma shape_chars: "shape p s \<Longrightarrow> c \<in> set s \<Longrightarrow> is_digit c \<or> c \<in> set p"
  by (induction p s rule: shape.induct) (auto split: if_splits)

lemma strptime_rejects_T:
  assumes "CHR ''T'' \<in> set s"
  shows "strptime_sqlite s = Inl bad_format"
proof -
  have "\<not> shape ''dddd-dd-dd dd:dd:dd'' s"
  proof
    assume "shape ''dddd-dd-dd dd:dd:dd'' s"
    from shape_chars [OF this assms] show False by (simp add: is_digit_def)
  qed
  then show ?thesis by (simp add: strptime_sqlite_def)
qed

lemma row_to_event_rejects_iso:
  assumes "CHR ''T'' \<in> set (row_start_time r) \<or> CHR ''T'' \<in> set (row_end_time r)"
  shows "\<exists>e. row_to_event (Some m) r = Inl e"
  using assms
  by (auto simp: row_to_event_def parse_from_sqlite_def strptime_rejects_T split: sum.splits)

lemma rows_loop_fails:
  assumes "r \<in> set rows" and "\<exists>e. row_to_event tm r = Inl e"
  shows "\<exists>e. rows_loop tm rows = Inl e"
  using assms by (induction rows) (auto split: sum.splits)

text \<open>
  With a timezone manager, one row whose start or end holds a \<^verbatim>\<open>T\<close> empties the whole
  result: \<^verbatim>\<open>parse_from_sqlite\<close> reads the stored text again with the SQLite format only.
\<close>

lemma execute_query_iso_with_manager:
  assumes "r \<in> set rows"
      and "CHR ''T'' \<in> set (row_start_time r) \<or> CHR ''T'' \<in> set (row_end_time r)"
  shows "execute_query (Some m) (Inr rows) = []"
  using rows_loop_fails [OF assms(1) row_to_event_rejects_iso [OF assms(2)], of m]
  by (auto simp: execute_query_def)

text \<open>
  C6 at a row stored in the ISO-8601 format with an offset: without a manager the row is
  returned as a parsed event, with a manager the result is empty. The same row in the
  SQLite format is returned with a manager.
\<close>

theorem execute_query_iso_row:
  "execute_query new_york_winter (Inr [iso_row]) = []
   \<and> execute_query None (Inr [iso_row])
     = [\<lparr>ev_id = Some ''e1'', ev_summary = ''Sync'', ev_description = [],
         ev_start = Aware (wall_of_civil 2024 3 11 9 0 0) 0,
         ev_end = Aware (wall_of_civil 2024 3 11 10 30 0) 0,
         ev_location = [], ev_attendees = JArr [], ev_status = ''confirmed'', ev_htmlLink = []\<rparr>]
   \<and> execute_query new_york_winter
       (Inr [iso_row\<lparr>row_start_time := ''2024-03-11 09:00:00'', row_end_time := ''2024-03-11 10:30:00''\<rparr>])
     = [\<lparr>ev_id = Some ''e1'', ev_summary = ''Sync'', ev_description = [],
         ev_start = Aware (wall_of_civil 2024 3 11 4 0 0) (- 18000),
         ev_end = Aware (wall_of_civil 2024 3 11 5 30 0) (- 18000),
         ev_location = [], ev_attendees = JArr [], ev_status = ''confirmed'', ev_htmlLink = []\<rparr>]"
proof -
  have a: "execute_query new_york_winter (Inr [iso_row]) = []"
    by (simp add: new_york_winter_def execute_query_iso_with_manager [of iso_row] iso_row_def)
  have b: "execute_query None (Inr [iso_row])
     = [\<lparr>ev_id = Some ''e1'', ev_summary = ''Sync'', ev_description = [],
         ev_start = Aware (wall_of_civil 2024 3 11 9 0 0) 0,
         ev_end = Aware (wall_of_civil 2024 3 11 10 30 0) 0,
         ev_location = [], ev_attendees = JArr [], ev_status = ''confirmed'', ev_htmlLink = []\<rparr>]"
    by code_simp
  have c: "execute_query new_york_winter
       (Inr [iso_row\<lparr>row_start_time := ''2024-03-11 09:00:00'', row_end_time := ''2024-03-11 10:30:00''\<rparr>])
     = [\<lparr>ev_id = Some ''e1'', ev_summary = ''Sync'', ev_description = [],
         ev_start = Aware (wall_of_civil 2024 3 11 4 0 0) (- 18000),
         ev_end = Aware (wall_of_civil 2024 3 11 5 30 0) (- 18000),
         ev_location = [], ev_attendees = JArr [], ev_status = ''confirmed'', ev_htmlLink = []\<rparr>]"
    by code_simp
  from a b c show ?thesis by blast
qed

section \<open>Fallbacks on model failure\<close>

text \<open>
  C8, as the code has it. When SQL generation raises, \<open>text_to_sql\<close> answers through the
  QA agent on the given event list and returns None only if a QA agent is configured and
  the list is non-empty; with no QA agent, no list or an empty list it returns the query
  \<^verbatim>\<open>SELECT * FROM events ORDER BY start_time\<close> and prints no answer.
\<close>

theorem text_to_sql_fallback:
  assumes "generated_sql response = Inl e"
  shows "text_to_sql (Some agent) response q (Some (ev # evs))
           = (None, Some (answer agent q (ev # evs)))
       \<and> text_to_sql None response q events = (Some select_all, None)
       \<and> text_to_sql qa response q None = (Some select_all, None)
       \<and> text_to_sql qa response q (Some []) = (Some select_all, None)"
  using assms by (auto simp: text_to_sql_def split: option.splits)

theorem text_to_sql_fallback_witness:
  "generated_sql (Inl (APIError ''timeout'')) = Inl (APIError ''timeout'')
   \<and> text_to_sql (Some (Inr (Some ''Lunch is at noon.''))) (Inl (APIError ''timeout''))
        ''what is on tomorrow'' (Some [lunch_listed])
     = (None, Some ''Lunch is at noon.'')"
proof -
  have h: "generated_sql (Inl (APIError ''timeout'')) = Inl (APIError ''timeout'')"
    by (simp add: generated_sql_def)
  have a: "answer (Inr (Some ''Lunch is at noon.'')) ''what is on tomorrow'' [lunch_listed]
           = ''Lunch is at noon.''"
    by (simp add: answer_def content_strip_def strip_def isspace_def)
  from text_to_sql_fallback [OF h, of "Inr (Some ''Lunch is at noon.'')" "''what is on tomorrow''"
      lunch_listed "[]"]
  have "text_to_sql (Some (Inr (Some ''Lunch is at noon.''))) (Inl (APIError ''timeout''))
          ''what is on tomorrow'' (Some [lunch_listed])
        = (None, Some (answer (Inr (Some ''Lunch is at noon.'')) ''what is on tomorrow'' [lunch_listed]))"
    by blast
  with a h show ?thesis by simp
qed

text \<open>
  The claim C8 as stated fails without a QA agent: the completion call raises, an event
  list is supplied, and the result is a query on the cache with no answer printed.
\<close>

theorem text_to_sql_counterexample:
  "text_to_sql None (Inl (APIError ''timeout'')) ''what is on tomorrow'' (Some [lunch_listed])
   = (Some ''SELECT * FROM events ORDER BY start_time'', None)"
  by (simp add: text_to_sql_def generated_sql_def select_all_def)

text \<open>
  C9, as the code has it. When the model call fails (it raises, or it yields no content),
  \<open>generate_response\<close> returns the count-based message for the given events, and
  \<open>answer\<close> returns \<^verbatim>\<open>Error: \<close> followed by the text of the exception.
\<close>

theorem responder_fallbacks:
  "generate_response (Inl e) q events = count_message events
   \<and> generate_response (Inr None) q events = count_message events
   \<and> answer (Inl e) q evs = ''Error: '' @ str_of_error e
   \<and> answer (Inr None) q evs = ''Error: '' @ str_of_error none_strip_error
   \<and> count_message ([] :: nat list) = ''I don't see any events matching your request.''
   \<and> count_message [a, b, c :: nat] = ''Found 3 event(s) matching your query.''"
proof -
  have "str_of_nat (Suc (Suc (Suc 0))) = ''3''"
    by code_simp
  then show ?thesis
    by (simp add: generate_response_def answer_def content_strip_def count_message_def)
qed

text \<open>
  The claim C9 as stated fails for \<open>answer\<close>: the text of the exception reaches the
  user, and the reply is not the count-based message.
\<close>

theorem answer_error_counterexample:
  "answer (Inl (APIError ''rate limit exceeded'')) ''what is on tomorrow'' [lunch_listed]
     = ''Error: rate limit exceeded''
   \<and> answer (Inl (APIError ''rate limit exceeded'')) ''what is on tomorrow'' [lunch_listed]
     \<noteq> count_message [lunch_listed]"
  by (simp add: answer_def count_message_def)

text \<open>
  The fail-open half of the validator's contract holds: when the model call raises,
  yields no content, or yields a content that is not JSON, \<open>validate\<close> returns the
  dict of its \<^verbatim>\<open>except\<close> branch, whose \<^verbatim>\<open>valid\<close> is true. When the content parses,
  \<open>validate\<close> returns the parsed document as it is.
\<close>

lemma validate_fail_open:
  "validate (Inl e) q a d = validation_error e
   \<and> validate (Inr None) q a d = validation_error none_strip_error
   \<and> (json_loads (unfenced_json (strip c)) = Inl e \<longrightarrow>
        validate (Inr (Some c)) q a d = validation_error e)
   \<and> (json_loads (unfenced_json (strip c)) = Inr j \<longrightarrow> validate (Inr (Some c)) q a d = j)
   \<and> get_key ''valid'' (validation_error e) = Some (JBool True)"
  by (simp add: validate_def content_strip_def validation_error_def)

lemma validate_not_json:
  "validate (Inr (Some ''Looks fine to me'')) ''cancel lunch'' ''cancel'' None
   = JObj [(''valid'', JBool True), (''message'', JStr ''Validation error: Expecting value'')]"
  by code_simp

text \<open>
  C10 at a model response that is a JSON object without the key \<^verbatim>\<open>valid\<close>: the result
  of \<open>validate\<close> is that object, and it holds no \<^verbatim>\<open>valid\<close> flag.
\<close>

theorem validate_without_flag:
  "validate (Inr (Some ''{\"message\": \"done\"}'')) ''cancel lunch'' ''cancel'' None
     = JObj [(''message'', JStr ''done'')]
   \<and> \<not> has_key ''valid'' (validate (Inr (Some ''{\"message\": \"done\"}'')) ''cancel lunch'' ''cancel'' None)"
proof -
  have "validate (Inr (Some ''{\"message\": \"done\"}'')) ''cancel lunch'' ''cancel'' None
     = JObj [(''message'', JStr ''done'')]"
    by code_simp
  then show ?thesis by simp
qed

end
